theory Spec2Isabelle
  imports Complex_Main
begin

section \<open>Go values, errors and reflected types\<close>

text \<open>
  The package \<open>wflambda\<close> (file \<open>handler.go\<close>) adapts a user function to the fixed
  signature \<open>func(context.Context, interface{}) (interface{}, error)\<close> and decorates it
  with telemetry. The embedding below follows the Go source function by function.

  A Go panic is an outcome of its own: a function either returns its results or panics
  with a value of type \<open>interface{}\<close>. The module declares \<open>go 1.13\<close>, so
  \<open>panic(nil)\<close> is a panic whose value is nil, and \<open>recover()\<close> returns nil for it.
\<close>

datatype runtime_error =
    NilDereference
  | IndexOutOfRange nat nat

text \<open>The 27 values of \<open>reflect.Kind\<close>.\<close>

datatype kind =
    KInvalid | KBool | KInt | KInt8 | KInt16 | KInt32 | KInt64
  | KUint | KUint8 | KUint16 | KUint32 | KUint64 | KUintptr
  | KFloat32 | KFloat64 | KComplex64 | KComplex128
  | KArray | KChan | KFunc | KInterface | KMap | KPtr | KSlice | KString | KStruct
  | KUnsafePointer

text \<open>
  Values of the interface \<open>error\<close>. The errors that \<open>handler.go\<close> builds with
  \<open>fmt.Errorf\<close> have a constructor each, carrying what the format string prints:
  \<^item> \<open>HandlerIsNil\<close>: "handler is nil";
  \<^item> \<open>KindIsNotFunc k\<close>: "handler kind k is not func";
  \<^item> \<open>TooManyArguments n\<close>: "handlers may not take more than two arguments, but handler takes n";
  \<^item> \<open>FirstNotContext k\<close>: "handler takes two arguments, but the first is not Context. got k";
  \<^item> \<open>TooManyReturns\<close>: "handler may not return more than two values";
  \<^item> \<open>SecondNotError\<close>: "handler returns two values, but the second does not implement error";
  \<^item> \<open>SingleNotError\<close>: "handler returns a single value, but it does not implement error".

  Every other error (of the JSON library, of the user function, of the metrics sender) is
  an \<open>ErrorString\<close> with its message; a run-time panic value is a \<open>RuntimeError\<close>.
\<close>

datatype go_error =
    HandlerIsNil
  | KindIsNotFunc kind
  | TooManyArguments nat
  | FirstNotContext kind
  | TooManyReturns
  | SecondNotError
  | SingleNotError
  | ErrorString string
  | RuntimeError runtime_error

text \<open>
  \<open>lambdacontext.LambdaContext\<close> (only the field that \<open>handler.go\<close> reads) and
  \<open>context.Context\<close>: \<open>lambdacontext.FromContext\<close> yields the lambda context stored in
  the context, or a nil pointer when there is none.
\<close>

record LambdaContext =
  InvokedFunctionArn :: string

record go_context =
  FromContext :: "LambdaContext option"

text \<open>Values of type \<open>interface{}\<close>: payloads, responses, arguments and panic values.\<close>

datatype go_value =
    GoNil
  | GoBool bool
  | GoInt int
  | GoString string
  | GoList "go_value list"
  | GoObject "(string \<times> go_value) list"
  | GoError go_error
  | GoContext go_context

datatype 'a outcome =
    Returned 'a
  | Panicked go_value

text \<open>
  A \<open>reflect.Type\<close> as far as the validators look at it: its kind and whether it
  implements \<open>context.Context\<close> and \<open>error\<close>. A function type has the lists of its
  argument and result types (\<open>NumIn\<close>, \<open>In\<close>, \<open>NumOut\<close>, \<open>Out\<close>).
\<close>

record go_type =
  Kind :: kind
  type_name :: string
  implements_context :: bool
  implements_error :: bool

record func_type =
  ins :: "go_type list"
  outs :: "go_type list"

definition NumIn :: "func_type \<Rightarrow> nat" where
  "NumIn handler = length (ins handler)"

definition In :: "func_type \<Rightarrow> nat \<Rightarrow> go_type" where
  "In handler i = ins handler ! i"

definition NumOut :: "func_type \<Rightarrow> nat" where
  "NumOut handler = length (outs handler)"

definition Out :: "func_type \<Rightarrow> nat \<Rightarrow> go_type" where
  "Out handler i = outs handler ! i"

text \<open>
  The handler symbol passed to the package, an \<open>interface{}\<close>: nil, or a value with its
  reflected kind. For a function, \<open>htype\<close> is its type and \<open>Call\<close> is what
  \<open>reflect.Value.Call\<close> does with an argument list: the results of the user function, or
  its panic.
\<close>

record handler_value =
  hkind :: kind
  htype :: func_type
  Call :: "go_value list \<Rightarrow> go_value list outcome"

datatype handler_symbol =
    NilHandler
  | Handler handler_value

section \<open>Observable events\<close>

text \<open>
  The calls an invocation makes to its collaborators, in order: the four methods of the
  metrics sender, \<open>log.Printf\<close>, and the reflective call of the user function. The two
  validator events record that \<open>validateArguments\<close> and \<open>validateReturns\<close> ran; they
  are emitted where \<open>newHandler\<close> calls them.
\<close>

datatype event =
    SendMetric string real int string "string \<rightharpoonup> string"
  | SendDeltaCounter string int string "string \<rightharpoonup> string"
  | Flush
  | Close
  | LogError go_error
  | HandlerCall "go_value list"
  | ValidateArguments
  | ValidateReturns

fun is_ValidateArguments :: "event \<Rightarrow> bool" where
  "is_ValidateArguments ValidateArguments = True"
| "is_ValidateArguments ev = False"

fun is_Flush_or_Close :: "event \<Rightarrow> bool" where
  "is_Flush_or_Close Flush = True"
| "is_Flush_or_Close Close = True"
| "is_Flush_or_Close ev = False"

section \<open>The signature validator\<close>

text \<open>
  \<open>validateArguments\<close> returns \<open>(bool, error)\<close>; the error, when there is one, is the
  left summand.
\<close>

definition validateArguments :: "func_type \<Rightarrow> go_error + bool" where
  "validateArguments handler =
     (if NumIn handler > 2 then Inl (TooManyArguments (NumIn handler))
      else if NumIn handler > 0 then
        (let argumentType = In handler 0;
             handlerTakesContext = implements_context argumentType
         in if NumIn handler > 1 \<and> \<not> handlerTakesContext
            then Inl (FirstNotContext (Kind argumentType))
            else Inr handlerTakesContext)
      else Inr False)"

definition validateReturns :: "func_type \<Rightarrow> go_error option" where
  "validateReturns handler =
     (if NumOut handler > 2 then Some TooManyReturns
      else if NumOut handler > 1 then
        (if \<not> implements_error (Out handler 1) then Some SecondNotError else None)
      else if NumOut handler = 1 then
        (if \<not> implements_error (Out handler 0) then Some SingleNotError else None)
      else None)"

section \<open>The payload adapter\<close>

text \<open>
  \<open>encoding/json\<close> is the Go standard library, a parameter of the model:
  \<open>Marshal\<close> serialises a value, \<open>Unmarshal\<close> decodes bytes into a new value of the
  given type; either may fail with an error.
\<close>

record json =
  Marshal :: "go_value \<Rightarrow> go_error + string"
  Unmarshal :: "string \<Rightarrow> go_type \<Rightarrow> go_error + go_value"

text \<open>
  A \<open>lambdaHandler\<close> returns \<open>(interface{}, error)\<close> or panics, and makes the calls
  listed in its second component.
\<close>

type_synonym lambdaHandler =
  "go_context \<Rightarrow> go_value \<Rightarrow> (go_value \<times> go_error option) outcome \<times> event list"

definition errorHandler :: "go_error \<Rightarrow> lambdaHandler" where
  "errorHandler e = (\<lambda>ctx event. (Returned (GoNil, Some e), []))"

text \<open>The type assertion \<open>.(error)\<close> on an \<open>interface{}\<close> value.\<close>

fun as_error :: "go_value \<Rightarrow> go_error option" where
  "as_error (GoError e) = Some e"
| "as_error v = None"

text \<open>
  The closure that \<open>newHandler\<close> returns for a handler of a legal shape. The two early
  returns of the argument construction are the \<open>Inl\<close> of \<open>constructed\<close>.
\<close>

definition adapter :: "json \<Rightarrow> handler_value \<Rightarrow> bool \<Rightarrow> lambdaHandler" where
  "adapter js handler takesContext = (\<lambda>ctx payload.
     let handlerType = htype handler;
         args = (if takesContext then [GoContext ctx] else []);
         constructed =
           (if (NumIn handlerType = 1 \<and> \<not> takesContext) \<or> NumIn handlerType = 2 then
              (case Marshal js payload of
                 Inl err \<Rightarrow> Inl err
               | Inr payloadBytes \<Rightarrow>
                   (let eventType = In handlerType (NumIn handlerType - 1)
                    in case Unmarshal js payloadBytes eventType of
                         Inl err \<Rightarrow> Inl err
                       | Inr event \<Rightarrow> Inr (args @ [event])))
            else Inr args)
     in case constructed of
          Inl err \<Rightarrow> (Returned (GoNil, Some err), [])
        | Inr args \<Rightarrow>
            (case Call handler args of
               Panicked v \<Rightarrow> (Panicked v, [HandlerCall args])
             | Returned response \<Rightarrow>
                 (let err = (if length response > 0 then as_error (last response) else None);
                      val = (if length response > 1 then response ! 0 else GoNil)
                  in (Returned (val, err), [HandlerCall args]))))"

text \<open>
  \<open>newHandler\<close> validates the handler symbol and builds the handler; the events are the
  validator runs it makes while doing so.
\<close>

definition newHandler :: "json \<Rightarrow> handler_symbol \<Rightarrow> lambdaHandler \<times> event list" where
  "newHandler js handlerSymbol =
     (case handlerSymbol of
        NilHandler \<Rightarrow> (errorHandler HandlerIsNil, [])
      | Handler handler \<Rightarrow>
          if hkind handler \<noteq> KFunc then (errorHandler (KindIsNotFunc (hkind handler)), [])
          else
            (case validateArguments (htype handler) of
               Inl err \<Rightarrow> (errorHandler err, [ValidateArguments])
             | Inr takesContext \<Rightarrow>
                 (case validateReturns (htype handler) of
                    Some err \<Rightarrow> (errorHandler err, [ValidateArguments, ValidateReturns])
                  | None \<Rightarrow>
                      (adapter js handler takesContext, [ValidateArguments, ValidateReturns]))))"

section \<open>Process state and collaborators\<close>

text \<open>
  Modelled from the spec: the counter type and the package-level variables \<open>coldStart\<close>,
  \<open>csCounter\<close>, \<open>invocationsCounter\<close> and \<open>errCounter\<close> are declared in a file of the
  package that is not among the sources. The spec has them as process-wide integers with
  monotonic increments, and a cold-start flag that is true when the process starts.
\<close>

record counter =
  val :: int

definition Increment :: "int \<Rightarrow> counter \<Rightarrow> counter" where
  "Increment n c = c\<lparr>val := val c + n\<rparr>"

text \<open>
  The state an invocation reads and writes: the package-level variables, the two
  variables of the package \<open>lambdacontext\<close>, and the \<open>WavefrontAgent\<close> that the wrapper
  points to: the tag map of its configuration, its \<open>counters\<close> and \<open>metrics\<close> maps and
  its sender. The agent is assumed to be allocated, with its three maps made and its
  sender set; the methods of the sender return and do not panic.

  The sender is a collaborator: the error a call returns is a function of the calls made
  so far and of the call itself. \<open>trace\<close> is the list of calls made so far.

  The two maps that \<open>Invoke\<close> ranges over are association lists with distinct keys.
\<close>

record world =
  coldStart :: bool
  csCounter :: counter
  invocationsCounter :: counter
  errCounter :: counter
  FunctionName :: string
  FunctionVersion :: string
  PointTags :: "string \<rightharpoonup> string"
  counters :: "(string \<times> int) list"
  metrics :: "(string \<times> real) list"
  sender :: "event list \<Rightarrow> event \<Rightarrow> go_error option"
  trace :: "event list"

text \<open>Modelled from the spec: the package-level declarations, at process start.\<close>

definition init_globals :: "world \<Rightarrow> world" where
  "init_globals w = w\<lparr>coldStart := True, csCounter := \<lparr>val = 0\<rparr>,
     invocationsCounter := \<lparr>val = 0\<rparr>, errCounter := \<lparr>val = 0\<rparr>\<rparr>"

text \<open>The assignment \<open>m[k] = v\<close> on a Go map.\<close>

fun store :: "'k \<Rightarrow> 'v \<Rightarrow> ('k \<times> 'v) list \<Rightarrow> ('k \<times> 'v) list" where
  "store k v [] = [(k, v)]"
| "store k v ((k', v') # m) = (if k = k' then (k, v) # m else (k', v') # store k v m)"

text \<open>
  Modelled from the spec: \<open>getMemoryStats\<close> is a function of the package that is not among
  the sources; it yields total, used and used percentage as of call time.
\<close>

record MemoryStats =
  Total :: real
  Used :: real
  UsedPercentage :: real

text \<open>
  What one invocation reads from its environment: the elapsed time \<open>time.Since(startTime)\<close>
  in seconds, the Unix time of the report, the memory statistics, and the order in which
  the two \<open>range\<close> loops visit the entries of their maps (Go leaves it unspecified).
\<close>

record env =
  duration_Seconds :: real
  now_Unix :: int
  getMemoryStats :: MemoryStats
  range_metrics :: "(string \<times> real) list \<Rightarrow> (string \<times> real) list"
  range_counters :: "(string \<times> int) list \<Rightarrow> (string \<times> int) list"

definition call_sender :: "event \<Rightarrow> world \<Rightarrow> go_error option \<times> world" where
  "call_sender ev w = (sender w (trace w) ev, w\<lparr>trace := trace w @ [ev]\<rparr>)"

definition log_Printf :: "go_error \<Rightarrow> world \<Rightarrow> world" where
  "log_Printf e w = w\<lparr>trace := trace w @ [LogError e]\<rparr>"

text \<open>\<open>strings.Split\<close> for a separator of one character, and indexing a slice.\<close>

fun strings_Split :: "string \<Rightarrow> char \<Rightarrow> string list" where
  "strings_Split [] sep = [[]]"
| "strings_Split (c # cs) sep =
     (if c = sep then [] # strings_Split cs sep
      else (case strings_Split cs sep of
              [] \<Rightarrow> [[c]]
            | x # xs \<Rightarrow> (c # x) # xs))"

definition index :: "'a list \<Rightarrow> nat \<Rightarrow> runtime_error + 'a" where
  "index xs i = (if i < length xs then Inr (xs ! i) else Inl (IndexOutOfRange i (length xs)))"

definition runtime_panic :: "runtime_error \<Rightarrow> 'a outcome" where
  "runtime_panic r = Panicked (GoError (RuntimeError r))"

section \<open>The telemetry decorator\<close>

record HandlerWrapper =
  lambdaContext :: "LambdaContext option"
  wrappedHandler :: lambdaHandler

definition NewHandlerWrapper :: "json \<Rightarrow> handler_symbol \<Rightarrow> HandlerWrapper \<times> event list" where
  "NewHandlerWrapper js handler =
     (let (h, evs) = newHandler js handler
      in (\<lparr>lambdaContext = None, wrappedHandler = h\<rparr>, evs))"

text \<open>
  \<open>Invoke\<close>, first part: the statements before the \<open>defer\<close>. A nil lambda context and
  an index out of range panic here; the tags stored before the panic stay stored.
\<close>

definition Invoke_tags :: "HandlerWrapper \<Rightarrow> go_context \<Rightarrow> world \<Rightarrow> unit outcome \<times> world" where
  "Invoke_tags hw ctx w =
     (let lc = FromContext ctx;
          hw = hw\<lparr>lambdaContext := lc\<rparr>
      in case lambdaContext hw of
           None \<Rightarrow> (runtime_panic NilDereference, w)
         | Some c \<Rightarrow>
            (let invokedFunctionArn = InvokedFunctionArn c;
                 splitArn = strings_Split invokedFunctionArn CHR '':'';
                 w = w\<lparr>PointTags := (PointTags w)(''LambdaArn'' \<mapsto> invokedFunctionArn)\<rparr>;
                 w = w\<lparr>PointTags := (PointTags w)(''source'' \<mapsto> FunctionName w)\<rparr>;
                 w = w\<lparr>PointTags := (PointTags w)(''FunctionName'' \<mapsto> FunctionName w)\<rparr>;
                 w = w\<lparr>PointTags := (PointTags w)(''ExecutedVersion'' \<mapsto> FunctionVersion w)\<rparr>
             in case index splitArn 3 of
                  Inl r \<Rightarrow> (runtime_panic r, w)
                | Inr s3 \<Rightarrow>
             (let w = w\<lparr>PointTags := (PointTags w)(''Region'' \<mapsto> s3)\<rparr>
              in case index splitArn 4 of
                  Inl r \<Rightarrow> (runtime_panic r, w)
                | Inr s4 \<Rightarrow>
             (let w = w\<lparr>PointTags := (PointTags w)(''accountId'' \<mapsto> s4)\<rparr>
              in case index splitArn 5 of
                  Inl r \<Rightarrow> (runtime_panic r, w)
                | Inr s5 \<Rightarrow>
                    if s5 = ''function'' then
                      (case index splitArn 6 of
                         Inl r \<Rightarrow> (runtime_panic r, w)
                       | Inr s6 \<Rightarrow>
                           (let w = w\<lparr>PointTags := (PointTags w)(''Resource'' \<mapsto> s6)\<rparr>
                            in if length splitArn = 8 then
                                 (case index splitArn 7 of
                                    Inl r \<Rightarrow> (runtime_panic r, w)
                                  | Inr s7 \<Rightarrow>
                                      (Returned (),
                                       w\<lparr>PointTags := (PointTags w)(''Resource'' \<mapsto>
                                           (case PointTags w ''Resource'' of
                                              None \<Rightarrow> [] | Some old \<Rightarrow> old) @ '':'' @ s7)\<rparr>))
                               else (Returned (), w)))
                    else if s5 = ''event-source-mappings'' then
                      (case index splitArn 6 of
                         Inl r \<Rightarrow> (runtime_panic r, w)
                       | Inr s6 \<Rightarrow>
                           (Returned (),
                            w\<lparr>PointTags := (PointTags w)(''EventSourceMappings'' \<mapsto> s6)\<rparr>))
                    else (Returned (), w)))))"

text \<open>
  The two \<open>range\<close> loops. Each assigns the sender's result to the named result \<open>err\<close>
  of \<open>Invoke\<close> and logs it when it is not nil.
\<close>

fun send_metrics ::
  "(string \<times> real) list \<Rightarrow> int \<Rightarrow> go_error option \<Rightarrow> world \<Rightarrow> go_error option \<times> world" where
  "send_metrics [] reportTime err w = (err, w)"
| "send_metrics ((metricName, metricValue) # rest) reportTime err w =
     (let (err, w) = call_sender
            (SendMetric metricName metricValue reportTime (FunctionName w) (PointTags w)) w;
          w = (case err of None \<Rightarrow> w | Some e \<Rightarrow> log_Printf e w)
      in send_metrics rest reportTime err w)"

fun send_counters ::
  "(string \<times> int) list \<Rightarrow> go_error option \<Rightarrow> world \<Rightarrow> go_error option \<times> world" where
  "send_counters [] err w = (err, w)"
| "send_counters ((metricName, metricValue) # rest) err w =
     (let (err, w) = call_sender
            (SendDeltaCounter metricName metricValue (FunctionName w) (PointTags w)) w;
          w = (case err of None \<Rightarrow> w | Some e \<Rightarrow> log_Printf e w)
      in send_counters rest err w)"

text \<open>
  \<open>Invoke\<close>, second part: from the start of the timer to \<open>return response, err\<close>. The
  result is the pair of named results at the \<open>return\<close>, or the panic of the wrapped
  handler, which leaves both named results nil.
\<close>

definition Invoke_body ::
  "HandlerWrapper \<Rightarrow> env \<Rightarrow> go_context \<Rightarrow> go_value \<Rightarrow> world
     \<Rightarrow> (go_value \<times> go_error option) outcome \<times> world" where
  "Invoke_body hw env ctx payload w =
     (let w = w\<lparr>invocationsCounter := Increment 1 (invocationsCounter w)\<rparr>;
          (result, evs) = wrappedHandler hw ctx payload;
          w = w\<lparr>trace := trace w @ evs\<rparr>
      in case result of
           Panicked v \<Rightarrow> (Panicked v, w)
         | Returned (response, err) \<Rightarrow>
            (let w = (if err \<noteq> None then w\<lparr>errCounter := Increment 1 (errCounter w)\<rparr> else w);
                 w = (if coldStart w
                      then w\<lparr>csCounter := Increment 1 (csCounter w), coldStart := False\<rparr>
                      else w);
                 duration = duration_Seconds env;
                 reportTime = now_Unix env;
                 w = w\<lparr>counters := store ''aws.lambda.wf.coldstarts'' (val (csCounter w)) (counters w)\<rparr>;
                 w = w\<lparr>counters := store ''aws.lambda.wf.invocations'' (val (invocationsCounter w))
                        (counters w)\<rparr>;
                 w = w\<lparr>metrics := store ''aws.lambda.wf.duration'' (duration * 1000) (metrics w)\<rparr>;
                 memstats = getMemoryStats env;
                 w = w\<lparr>metrics := store ''aws.lambda.wf.mem.total'' (Total memstats) (metrics w)\<rparr>;
                 w = w\<lparr>metrics := store ''aws.lambda.wf.mem.used'' (Used memstats) (metrics w)\<rparr>;
                 w = w\<lparr>metrics := store ''aws.lambda.wf.mem.percentage'' (UsedPercentage memstats)
                        (metrics w)\<rparr>;
                 (err, w) = send_metrics (range_metrics env (metrics w)) reportTime err w;
                 (err, w) = send_counters (range_counters env (counters w)) err w
             in (Returned (response, err), w)))"

text \<open>
  The deferred function. \<open>e\<close> is what \<open>recover()\<close> returns: the panic value of the
  body, nil when the body returned; \<open>results\<close> are the named results at that moment. A
  non-nil \<open>deferedErr\<close> is raised again; otherwise \<open>Invoke\<close> returns its named results.
\<close>

definition Invoke_deferred ::
  "go_value \<Rightarrow> go_value \<times> go_error option \<Rightarrow> world
     \<Rightarrow> (go_value \<times> go_error option) outcome \<times> world" where
  "Invoke_deferred e results w =
     (let (deferedErr, w) =
            (if e \<noteq> GoNil then
               (let w = w\<lparr>errCounter := Increment 1 (errCounter w)\<rparr>
                in (e, snd (call_sender (SendDeltaCounter ''aws.lambda.wf.errors''
                      (val (errCounter w)) (FunctionName w) (PointTags w)) w)))
             else if snd results \<noteq> None then
               (let w = w\<lparr>errCounter := Increment 1 (errCounter w)\<rparr>
                in (GoNil, snd (call_sender (SendDeltaCounter ''aws.lambda.wf.errors''
                      (val (errCounter w)) (FunctionName w) (PointTags w)) w)))
             else (GoNil, w));
          w = snd (call_sender Flush w);
          w = snd (call_sender Close w)
      in if deferedErr \<noteq> GoNil then (Panicked deferedErr, w) else (Returned results, w))"

text \<open>
  \<open>Invoke\<close>: a panic before the \<open>defer\<close> statement propagates at once; after it, the
  deferred function runs on every exit of the body.
\<close>

definition Invoke ::
  "HandlerWrapper \<Rightarrow> env \<Rightarrow> go_context \<Rightarrow> go_value \<Rightarrow> world
     \<Rightarrow> (go_value \<times> go_error option) outcome \<times> world" where
  "Invoke hw env ctx payload w =
     (case Invoke_tags hw ctx w of
        (Panicked v, w) \<Rightarrow> (Panicked v, w)
      | (Returned u, w) \<Rightarrow>
          (case Invoke_body hw env ctx payload w of
             (Returned results, w) \<Rightarrow> Invoke_deferred GoNil results w
           | (Panicked v, w) \<Rightarrow> Invoke_deferred v (GoNil, None) w))"

text \<open>
  \<open>wrapHandler\<close>: the returned function makes a new wrapper on every call, then invokes it.
\<close>

definition wrapHandler ::
  "json \<Rightarrow> handler_symbol \<Rightarrow> env \<Rightarrow> go_context \<Rightarrow> go_value \<Rightarrow> world
     \<Rightarrow> (go_value \<times> go_error option) outcome \<times> world" where
  "wrapHandler js handler = (\<lambda>env ctx payload w.
     let (handlerWrapper, evs) = NewHandlerWrapper js handler;
         w = w\<lparr>trace := trace w @ evs\<rparr>
     in Invoke handlerWrapper env ctx payload w)"

section \<open>Auxiliary notions for the properties\<close>

text \<open>
  Whether the statements of \<open>Invoke\<close> before the \<open>defer\<close> run to their end: there is a
  lambda context, and the split ARN has every segment that is indexed.
\<close>

definition tags_resolve :: "go_context \<Rightarrow> bool" where
  "tags_resolve ctx =
     (case FromContext ctx of
        None \<Rightarrow> False
      | Some c \<Rightarrow>
          (let splitArn = strings_Split (InvokedFunctionArn c) CHR '':''
           in if length splitArn < 6 then False
              else if splitArn ! 5 = ''function'' \<or> splitArn ! 5 = ''event-source-mappings''
              then 7 \<le> length splitArn
              else True))"

fun is_Returned :: "'a outcome \<Rightarrow> bool" where
  "is_Returned (Returned x) = True"
| "is_Returned (Panicked v) = False"


text \<open>The error of a returned pair (none when the outcome is a panic).\<close>

fun returned_error :: "(go_value \<times> go_error option) outcome \<Rightarrow> go_error option" where
  "returned_error (Returned (response, err)) = err"
| "returned_error (Panicked v) = None"



text \<open>
  The error of the two validators for a function type, in the order \<open>newHandler\<close>
  consults them.
\<close>

definition shape_error :: "func_type \<Rightarrow> go_error option" where
  "shape_error t =
     (case validateArguments t of Inl e \<Rightarrow> Some e | Inr takesContext \<Rightarrow> validateReturns t)"


text \<open>
  The invocations of a process: each request names the handler that was wrapped for it.
  A request gets as far as the cold-start check when the tags resolve and the wrapped
  handler returns.
\<close>

record request =
  req_handler :: handler_symbol
  req_env :: env
  req_ctx :: go_context
  req_payload :: go_value

definition serve ::
  "json \<Rightarrow> request \<Rightarrow> world \<Rightarrow> (go_value \<times> go_error option) outcome \<times> world" where
  "serve js r = wrapHandler js (req_handler r) (req_env r) (req_ctx r) (req_payload r)"

fun serve_all :: "json \<Rightarrow> request list \<Rightarrow> world \<Rightarrow> world" where
  "serve_all js [] w = w"
| "serve_all js (r # rs) w = serve_all js rs (snd (serve js r w))"

definition inner_returns :: "json \<Rightarrow> request \<Rightarrow> bool" where
  "inner_returns js r =
     (tags_resolve (req_ctx r) \<and>
      is_Returned (fst (fst (newHandler js (req_handler r)) (req_ctx r) (req_payload r))))"

section \<open>Example inputs\<close>

definition sender_ok :: "event list \<Rightarrow> event \<Rightarrow> go_error option" where
  "sender_ok = (\<lambda>calls ev. None)"

definition sender_down :: "event list \<Rightarrow> event \<Rightarrow> go_error option" where
  "sender_down = (\<lambda>calls ev. Some (ErrorString ''connection refused''))"

definition example_world :: "(event list \<Rightarrow> event \<Rightarrow> go_error option) \<Rightarrow> world" where
  "example_world s = init_globals
     \<lparr>coldStart = True, csCounter = \<lparr>val = 0\<rparr>, invocationsCounter = \<lparr>val = 0\<rparr>,
      errCounter = \<lparr>val = 0\<rparr>, FunctionName = ''my-func'', FunctionVersion = ''3'',
      PointTags = Map.empty, counters = [], metrics = [], sender = s, trace = []\<rparr>"

definition example_env :: env where
  "example_env = \<lparr>duration_Seconds = 2, now_Unix = 1600000000,
     getMemoryStats = \<lparr>Total = 128, Used = 64, UsedPercentage = 50\<rparr>,
     range_metrics = (\<lambda>m. m), range_counters = (\<lambda>m. m)\<rparr>"

definition function_ctx :: go_context where
  "function_ctx = \<lparr>FromContext = Some \<lparr>InvokedFunctionArn =
     ''arn:aws:lambda:us-west-2:123456789012:function:my-func:3''\<rparr>\<rparr>"

definition short_arn_ctx :: go_context where
  "short_arn_ctx = \<lparr>FromContext = Some \<lparr>InvokedFunctionArn = ''arn:aws:lambda''\<rparr>\<rparr>"

definition no_lambda_ctx :: go_context where
  "no_lambda_ctx = \<lparr>FromContext = None\<rparr>"

text \<open>A JSON library that encodes strings only, as themselves.\<close>

definition example_json :: json where
  "example_json = \<lparr>
     Marshal = (\<lambda>v. case v of GoString s \<Rightarrow> Inr s | _ \<Rightarrow> Inl (ErrorString ''unsupported type'')),
     Unmarshal = (\<lambda>bytes t. if Kind t = KString then Inr (GoString bytes)
                             else Inl (ErrorString ''cannot unmarshal''))\<rparr>"

definition error_type :: go_type where
  "error_type = \<lparr>Kind = KInterface, type_name = ''error'',
     implements_context = False, implements_error = True\<rparr>"

definition context_type :: go_type where
  "context_type = \<lparr>Kind = KInterface, type_name = ''context.Context'',
     implements_context = True, implements_error = False\<rparr>"

definition string_type :: go_type where
  "string_type = \<lparr>Kind = KString, type_name = ''string'',
     implements_context = False, implements_error = False\<rparr>"

definition int_type :: go_type where
  "int_type = \<lparr>Kind = KInt, type_name = ''int'',
     implements_context = False, implements_error = False\<rparr>"

text \<open>\<open>func() error { return errors.New("boom") }\<close>\<close>

definition failing_handler :: handler_value where
  "failing_handler = \<lparr>hkind = KFunc, htype = \<lparr>ins = [], outs = [error_type]\<rparr>,
     Call = (\<lambda>args. Returned [GoError (ErrorString ''boom'')])\<rparr>"

text \<open>\<open>func(ctx context.Context, s string) (string, error) { return s, nil }\<close>\<close>

definition echo_handler :: handler_value where
  "echo_handler = \<lparr>hkind = KFunc,
     htype = \<lparr>ins = [context_type, string_type], outs = [string_type, error_type]\<rparr>,
     Call = (\<lambda>args. Returned [last args, GoNil])\<rparr>"

text \<open>\<open>func(ctx context.Context, n int) (string, error)\<close>, never reached below.\<close>

definition int_handler :: handler_value where
  "int_handler = \<lparr>hkind = KFunc,
     htype = \<lparr>ins = [context_type, int_type], outs = [string_type, error_type]\<rparr>,
     Call = (\<lambda>args. Returned [GoString ''called'', GoNil])\<rparr>"

text \<open>\<open>func() error { panic("boom") }\<close> and \<open>func() error { panic(nil) }\<close>\<close>

definition panicking_handler :: handler_value where
  "panicking_handler = \<lparr>hkind = KFunc, htype = \<lparr>ins = [], outs = [error_type]\<rparr>,
     Call = (\<lambda>args. Panicked (GoString ''boom''))\<rparr>"

definition nil_panic_handler :: handler_value where
  "nil_panic_handler = \<lparr>hkind = KFunc, htype = \<lparr>ins = [], outs = [error_type]\<rparr>,
     Call = (\<lambda>args. Panicked GoNil)\<rparr>"

text \<open>\<open>func(ctx context.Context, a string, b string) error\<close>\<close>

definition three_argument_handler :: handler_value where
  "three_argument_handler = \<lparr>hkind = KFunc,
     htype = \<lparr>ins = [context_type, string_type, string_type], outs = [error_type]\<rparr>,
     Call = (\<lambda>args. Returned [GoNil])\<rparr>"

definition example_request :: "handler_value \<Rightarrow> request" where
  "example_request h = \<lparr>req_handler = Handler h, req_env = example_env,
     req_ctx = function_ctx, req_payload = GoString ''hello''\<rparr>"

section \<open>Facts about the parts of Invoke\<close>

text \<open>Two worlds that differ in the trace only agree on every other field.\<close>

lemma frame_fields:
  assumes "w'\<lparr>trace := []\<rparr> = w\<lparr>trace := []\<rparr>"
  shows "coldStart w' = coldStart w" and "csCounter w' = csCounter w"
    and "invocationsCounter w' = invocationsCounter w" and "errCounter w' = errCounter w"
    and "FunctionName w' = FunctionName w" and "FunctionVersion w' = FunctionVersion w"
    and "PointTags w' = PointTags w" and "counters w' = counters w"
    and "metrics w' = metrics w" and "sender w' = sender w"
proof -
  have "coldStart (w'\<lparr>trace := []\<rparr>) = coldStart (w\<lparr>trace := []\<rparr>)" using assms by simp
  then show "coldStart w' = coldStart w" by simp
  have "csCounter (w'\<lparr>trace := []\<rparr>) = csCounter (w\<lparr>trace := []\<rparr>)" using assms by simp
  then show "csCounter w' = csCounter w" by simp
  have "invocationsCounter (w'\<lparr>trace := []\<rparr>) = invocationsCounter (w\<lparr>trace := []\<rparr>)"
    using assms by simp
  then show "invocationsCounter w' = invocationsCounter w" by simp
  have "errCounter (w'\<lparr>trace := []\<rparr>) = errCounter (w\<lparr>trace := []\<rparr>)" using assms by simp
  then show "errCounter w' = errCounter w" by simp
  have "FunctionName (w'\<lparr>trace := []\<rparr>) = FunctionName (w\<lparr>trace := []\<rparr>)" using assms by simp
  then show "FunctionName w' = FunctionName w" by simp
  have "FunctionVersion (w'\<lparr>trace := []\<rparr>) = FunctionVersion (w\<lparr>trace := []\<rparr>)"
    using assms by simp
  then show "FunctionVersion w' = FunctionVersion w" by simp
  have "PointTags (w'\<lparr>trace := []\<rparr>) = PointTags (w\<lparr>trace := []\<rparr>)" using assms by simp
  then show "PointTags w' = PointTags w" by simp
  have "counters (w'\<lparr>trace := []\<rparr>) = counters (w\<lparr>trace := []\<rparr>)" using assms by simp
  then show "counters w' = counters w" by simp
  have "metrics (w'\<lparr>trace := []\<rparr>) = metrics (w\<lparr>trace := []\<rparr>)" using assms by simp
  then show "metrics w' = metrics w" by simp
  have "sender (w'\<lparr>trace := []\<rparr>) = sender (w\<lparr>trace := []\<rparr>)" using assms by simp
  then show "sender w' = sender w" by simp
qed

lemma send_metrics_frame:
  "(snd (send_metrics l t err w))\<lparr>trace := []\<rparr> = w\<lparr>trace := []\<rparr>"
  by (induction l arbitrary: err w)
     (auto simp: call_sender_def log_Printf_def split: option.splits)

lemma send_counters_frame:
  "(snd (send_counters l err w))\<lparr>trace := []\<rparr> = w\<lparr>trace := []\<rparr>"
  by (induction l arbitrary: err w)
     (auto simp: call_sender_def log_Printf_def split: option.splits)

lemmas send_metrics_fields = frame_fields [OF send_metrics_frame]

lemmas send_counters_fields = frame_fields [OF send_counters_frame]

lemma send_metrics_validate:
  "filter is_ValidateArguments (trace (snd (send_metrics l t err w)))
     = filter is_ValidateArguments (trace w)"
  by (induction l arbitrary: err w)
     (auto simp: call_sender_def log_Printf_def split: option.splits)

lemma send_counters_validate:
  "filter is_ValidateArguments (trace (snd (send_counters l err w)))
     = filter is_ValidateArguments (trace w)"
  by (induction l arbitrary: err w)
     (auto simp: call_sender_def log_Printf_def split: option.splits)

text \<open>Tag resolution writes the tag map and nothing else.\<close>

lemma Invoke_tags_frame:
  "(snd (Invoke_tags hw ctx w))\<lparr>PointTags := Map.empty\<rparr> = w\<lparr>PointTags := Map.empty\<rparr>"
  by (simp add: Invoke_tags_def Let_def split: option.splits sum.splits)

lemma Invoke_body_panicked:
  assumes "wrappedHandler hw ctx payload = (Panicked v, evs)"
  shows "Invoke_body hw env ctx payload w =
           (Panicked v, w\<lparr>invocationsCounter := Increment 1 (invocationsCounter w),
                          trace := trace w @ evs\<rparr>)"
  using assms by (simp add: Invoke_body_def)

lemma Invoke_body_returned:
  assumes "wrappedHandler hw ctx payload = (Returned (response, err), evs)"
  shows "\<exists>err'. fst (Invoke_body hw env ctx payload w) = Returned (response, err')"
    and "invocationsCounter (snd (Invoke_body hw env ctx payload w))
           = Increment 1 (invocationsCounter w)"
    and "errCounter (snd (Invoke_body hw env ctx payload w))
           = (if err \<noteq> None then Increment 1 (errCounter w) else errCounter w)"
    and "coldStart (snd (Invoke_body hw env ctx payload w)) = False"
    and "csCounter (snd (Invoke_body hw env ctx payload w))
           = (if coldStart w then Increment 1 (csCounter w) else csCounter w)"
    and "PointTags (snd (Invoke_body hw env ctx payload w)) = PointTags w"
    and "filter is_ValidateArguments (trace (snd (Invoke_body hw env ctx payload w)))
           = filter is_ValidateArguments (trace w @ evs)"
  using assms
  by (simp_all add: Invoke_body_def Let_def split_def send_metrics_fields send_counters_fields
        send_metrics_validate send_counters_validate)

lemma Invoke_deferred_fields:
  "coldStart (snd (Invoke_deferred e results w)) = coldStart w"
  "csCounter (snd (Invoke_deferred e results w)) = csCounter w"
  "invocationsCounter (snd (Invoke_deferred e results w)) = invocationsCounter w"
  "PointTags (snd (Invoke_deferred e results w)) = PointTags w"
  "errCounter (snd (Invoke_deferred e results w))
     = (if e \<noteq> GoNil \<or> snd results \<noteq> None then Increment 1 (errCounter w) else errCounter w)"
  "filter is_ValidateArguments (trace (snd (Invoke_deferred e results w)))
     = filter is_ValidateArguments (trace w)"
  by (simp_all add: Invoke_deferred_def Let_def split_def call_sender_def)

lemma Invoke_tags_outcome:
  "tags_resolve ctx \<Longrightarrow> fst (Invoke_tags hw ctx w) = Returned ()"
  "\<not> tags_resolve ctx \<Longrightarrow> \<exists>r. fst (Invoke_tags hw ctx w) = Panicked (GoError (RuntimeError r))"
  by (auto simp add: Invoke_tags_def tags_resolve_def Let_def index_def runtime_panic_def
        split: option.splits sum.splits if_splits)

lemma Invoke_tags_trace: "trace (snd (Invoke_tags hw ctx w)) = trace w"
  using arg_cong [OF Invoke_tags_frame, of trace hw ctx w] by simp

lemma Invoke_tags_fields:
  "coldStart (snd (Invoke_tags hw ctx w)) = coldStart w"
  "csCounter (snd (Invoke_tags hw ctx w)) = csCounter w"
  "invocationsCounter (snd (Invoke_tags hw ctx w)) = invocationsCounter w"
  "errCounter (snd (Invoke_tags hw ctx w)) = errCounter w"
  "FunctionName (snd (Invoke_tags hw ctx w)) = FunctionName w"
  using arg_cong [OF Invoke_tags_frame, of coldStart hw ctx w]
        arg_cong [OF Invoke_tags_frame, of csCounter hw ctx w]
        arg_cong [OF Invoke_tags_frame, of invocationsCounter hw ctx w]
        arg_cong [OF Invoke_tags_frame, of errCounter hw ctx w]
        arg_cong [OF Invoke_tags_frame, of FunctionName hw ctx w]
  by simp_all

lemma Invoke_unresolved:
  assumes "\<not> tags_resolve ctx"
  shows "snd (Invoke hw env ctx payload w) = snd (Invoke_tags hw ctx w)" (is "?a")
    and "\<exists>r. fst (Invoke hw env ctx payload w) = Panicked (GoError (RuntimeError r))" (is "?b")
proof -
  obtain r where r: "fst (Invoke_tags hw ctx w) = Panicked (GoError (RuntimeError r))"
    using Invoke_tags_outcome(2) [OF assms] by blast
  then show ?a by (cases "Invoke_tags hw ctx w") (simp add: Invoke_def)
  from r show ?b by (cases "Invoke_tags hw ctx w") (simp add: Invoke_def)
qed

lemma Invoke_resolved:
  assumes "tags_resolve ctx"
  shows "Invoke hw env ctx payload w =
     (case Invoke_body hw env ctx payload (snd (Invoke_tags hw ctx w)) of
        (Returned results, w') \<Rightarrow> Invoke_deferred GoNil results w'
      | (Panicked v, w') \<Rightarrow> Invoke_deferred v (GoNil, None) w')"
  using Invoke_tags_outcome(1) [OF assms, of hw w]
  by (cases "Invoke_tags hw ctx w") (simp add: Invoke_def)


lemma Invoke_body_PointTags:
  "PointTags (snd (Invoke_body hw env ctx payload w)) = PointTags w"
proof (cases "wrappedHandler hw ctx payload")
  case (Pair result evs)
  show ?thesis
  proof (cases result)
    case (Returned x)
    with Pair show ?thesis by (cases x) (simp add: Invoke_body_returned)
  next
    case (Panicked v)
    with Pair show ?thesis by (simp add: Invoke_body_panicked)
  qed
qed

lemma Invoke_PointTags:
  "PointTags (snd (Invoke hw env ctx payload w)) = PointTags (snd (Invoke_tags hw ctx w))"
proof (cases "tags_resolve ctx")
  case True
  show ?thesis
    unfolding Invoke_resolved [OF True]
    using Invoke_body_PointTags [of hw env ctx payload "snd (Invoke_tags hw ctx w)"]
    by (auto simp: Invoke_deferred_fields split: prod.splits outcome.splits)
next
  case False
  then show ?thesis by (simp add: Invoke_unresolved)
qed

text \<open>\<open>Invoke\<close> as a whole, by the outcome of the wrapped handler.\<close>

lemma Invoke_panicked:
  assumes "tags_resolve ctx" and "wrappedHandler hw ctx payload = (Panicked v, evs)"
  shows "Invoke hw env ctx payload w =
           Invoke_deferred v (GoNil, None)
             ((snd (Invoke_tags hw ctx w))
                \<lparr>invocationsCounter := Increment 1 (invocationsCounter w),
                 trace := trace w @ evs\<rparr>)"
  by (simp add: Invoke_resolved [OF assms(1)] Invoke_body_panicked [OF assms(2)]
        Invoke_tags_fields Invoke_tags_trace)

lemma Invoke_returned:
  assumes "tags_resolve ctx" and "wrappedHandler hw ctx payload = (Returned (response, err), evs)"
  shows "\<exists>err'. Invoke hw env ctx payload w =
           Invoke_deferred GoNil (response, err')
             (snd (Invoke_body hw env ctx payload (snd (Invoke_tags hw ctx w))))"
proof -
  obtain err' where "fst (Invoke_body hw env ctx payload (snd (Invoke_tags hw ctx w)))
      = Returned (response, err')"
    using Invoke_body_returned(1) [OF assms(2)] by blast
  then show ?thesis
    by (cases "Invoke_body hw env ctx payload (snd (Invoke_tags hw ctx w))")
       (auto simp add: Invoke_resolved [OF assms(1)])
qed

lemma Invoke_cold_start:
  "coldStart (snd (Invoke hw env ctx payload w))
     = (coldStart w \<and> \<not> (tags_resolve ctx \<and> is_Returned (fst (wrappedHandler hw ctx payload))))"
  "csCounter (snd (Invoke hw env ctx payload w))
     = (if coldStart w \<and> tags_resolve ctx \<and> is_Returned (fst (wrappedHandler hw ctx payload))
        then Increment 1 (csCounter w) else csCounter w)"
proof -
  have "coldStart (snd (Invoke hw env ctx payload w))
     = (coldStart w \<and> \<not> (tags_resolve ctx \<and> is_Returned (fst (wrappedHandler hw ctx payload))))
    \<and> csCounter (snd (Invoke hw env ctx payload w))
     = (if coldStart w \<and> tags_resolve ctx \<and> is_Returned (fst (wrappedHandler hw ctx payload))
        then Increment 1 (csCounter w) else csCounter w)"
  proof (cases "tags_resolve ctx")
    case False
    then show ?thesis by (simp add: Invoke_unresolved Invoke_tags_fields)
  next
    case True
    obtain result evs where p: "wrappedHandler hw ctx payload = (result, evs)"
      by (cases "wrappedHandler hw ctx payload")
    show ?thesis
    proof (cases result)
      case (Panicked v)
      with p True show ?thesis
        by (simp add: Invoke_panicked Invoke_deferred_fields Invoke_tags_fields)
    next
      case (Returned x)
      obtain response err where x: "x = (response, err)" by (cases x)
      from Invoke_returned [OF True p [unfolded Returned x]] obtain err' where
        "Invoke hw env ctx payload w =
           Invoke_deferred GoNil (response, err')
             (snd (Invoke_body hw env ctx payload (snd (Invoke_tags hw ctx w))))"
        by blast
      with p True Returned x show ?thesis
        by (simp add: Invoke_deferred_fields Invoke_body_returned Invoke_tags_fields)
    qed
  qed
  then show "coldStart (snd (Invoke hw env ctx payload w))
     = (coldStart w \<and> \<not> (tags_resolve ctx \<and> is_Returned (fst (wrappedHandler hw ctx payload))))"
    and "csCounter (snd (Invoke hw env ctx payload w))
     = (if coldStart w \<and> tags_resolve ctx \<and> is_Returned (fst (wrappedHandler hw ctx payload))
        then Increment 1 (csCounter w) else csCounter w)"
    by simp_all
qed

lemma Invoke_counters:
  assumes "tags_resolve ctx"
  shows "invocationsCounter (snd (Invoke hw env ctx payload w)) = Increment 1 (invocationsCounter w)"
    and "val (errCounter w) \<le> val (errCounter (snd (Invoke hw env ctx payload w)))"
    and "val (errCounter (snd (Invoke hw env ctx payload w))) \<le> val (errCounter w) + 2"
    and "wrappedHandler hw ctx payload = (Returned (response, Some e), evs)
           \<Longrightarrow> val (errCounter w) + 1 \<le> val (errCounter (snd (Invoke hw env ctx payload w)))"
    and "wrappedHandler hw ctx payload = (Panicked v, evs) \<Longrightarrow> v \<noteq> GoNil
           \<Longrightarrow> val (errCounter (snd (Invoke hw env ctx payload w))) = val (errCounter w) + 1"
proof -
  obtain result evs' where p: "wrappedHandler hw ctx payload = (result, evs')"
    by (cases "wrappedHandler hw ctx payload")
  have "invocationsCounter (snd (Invoke hw env ctx payload w)) = Increment 1 (invocationsCounter w)
      \<and> val (errCounter w) \<le> val (errCounter (snd (Invoke hw env ctx payload w)))
      \<and> val (errCounter (snd (Invoke hw env ctx payload w))) \<le> val (errCounter w) + 2
      \<and> (\<forall>response e. result = Returned (response, Some e)
           \<longrightarrow> val (errCounter w) + 1 \<le> val (errCounter (snd (Invoke hw env ctx payload w))))
      \<and> (\<forall>v. result = Panicked v \<longrightarrow> v \<noteq> GoNil
           \<longrightarrow> val (errCounter (snd (Invoke hw env ctx payload w))) = val (errCounter w) + 1)"
  proof (cases result)
    case (Panicked v)
    with p assms show ?thesis
      by (simp add: Invoke_panicked Invoke_deferred_fields Invoke_tags_fields Increment_def)
  next
    case (Returned x)
    obtain response err where x: "x = (response, err)" by (cases x)
    from Invoke_returned [OF assms p [unfolded Returned x]] obtain err' where
      "Invoke hw env ctx payload w =
         Invoke_deferred GoNil (response, err')
           (snd (Invoke_body hw env ctx payload (snd (Invoke_tags hw ctx w))))"
      by blast
    with p Returned x show ?thesis
      by (simp add: Invoke_deferred_fields Invoke_body_returned Invoke_tags_fields Increment_def)
  qed
  with p show "invocationsCounter (snd (Invoke hw env ctx payload w)) = Increment 1 (invocationsCounter w)"
    and "val (errCounter w) \<le> val (errCounter (snd (Invoke hw env ctx payload w)))"
    and "val (errCounter (snd (Invoke hw env ctx payload w))) \<le> val (errCounter w) + 2"
    and "wrappedHandler hw ctx payload = (Returned (response, Some e), evs)
           \<Longrightarrow> val (errCounter w) + 1 \<le> val (errCounter (snd (Invoke hw env ctx payload w)))"
    and "wrappedHandler hw ctx payload = (Panicked v, evs) \<Longrightarrow> v \<noteq> GoNil
           \<Longrightarrow> val (errCounter (snd (Invoke hw env ctx payload w))) = val (errCounter w) + 1"
    by simp_all
qed


section \<open>A sender that gives every call the same result\<close>

text \<open>
  With such a sender the error that \<open>Invoke\<close> returns is that result, whatever the
  wrapped handler returned, provided the \<open>range\<close> over a non-empty map visits an entry.
\<close>

lemma store_not_Nil: "store k v m \<noteq> []"
  by (cases m) (auto split: if_splits)

lemma send_metrics_constant_sender:
  "sender w = (\<lambda>calls ev. x) \<Longrightarrow> fst (send_metrics l t err w) = (if l = [] then err else x)"
  by (induction l arbitrary: err w)
     (auto simp: call_sender_def log_Printf_def split: option.splits)

lemma send_counters_constant_sender:
  "sender w = (\<lambda>calls ev. x) \<Longrightarrow> fst (send_counters l err w) = (if l = [] then err else x)"
  by (induction l arbitrary: err w)
     (auto simp: call_sender_def log_Printf_def split: option.splits)

lemma Invoke_body_constant_sender:
  assumes "wrappedHandler hw ctx payload = (Returned (response, err), evs)"
    and "sender w = (\<lambda>calls ev. x)"
    and "\<And>m. m \<noteq> [] \<Longrightarrow> range_counters env m \<noteq> []"
  shows "fst (Invoke_body hw env ctx payload w) = Returned (response, x)"
  using assms
  by (simp add: Invoke_body_def Let_def split_def send_metrics_fields
        send_counters_constant_sender store_not_Nil)

lemma Invoke_constant_sender:
  assumes "tags_resolve ctx"
    and "wrappedHandler hw ctx payload = (Returned (response, err), evs)"
    and "sender w = (\<lambda>calls ev. x)"
    and "\<And>m. m \<noteq> [] \<Longrightarrow> range_counters env m \<noteq> []"
  shows "fst (Invoke hw env ctx payload w) = Returned (response, x)"
    and "val (errCounter (snd (Invoke hw env ctx payload w)))
           = val (errCounter w) + (if err \<noteq> None then 1 else 0) + (if x \<noteq> None then 1 else 0)"
proof -
  let ?w1 = "snd (Invoke_tags hw ctx w)"
  have s: "sender ?w1 = (\<lambda>calls ev. x)"
    using arg_cong [OF Invoke_tags_frame, of sender hw ctx w] assms(3) by simp
  have b: "fst (Invoke_body hw env ctx payload ?w1) = Returned (response, x)"
    using Invoke_body_constant_sender [OF assms(2) s assms(4)] .
  then have i: "Invoke hw env ctx payload w
      = Invoke_deferred GoNil (response, x) (snd (Invoke_body hw env ctx payload ?w1))"
    by (cases "Invoke_body hw env ctx payload ?w1") (simp add: Invoke_resolved [OF assms(1)])
  show "fst (Invoke hw env ctx payload w) = Returned (response, x)"
    by (simp add: i Invoke_deferred_def Let_def split_def)
  show "val (errCounter (snd (Invoke hw env ctx payload w)))
           = val (errCounter w) + (if err \<noteq> None then 1 else 0) + (if x \<noteq> None then 1 else 0)"
    by (simp add: i Invoke_deferred_fields Invoke_body_returned [OF assms(2)] Invoke_tags_fields
          Increment_def)
qed

section \<open>The model on the example inputs, and the remaining cases\<close>

lemma tags_resolve_function_ctx: "tags_resolve function_ctx"
  by (simp add: tags_resolve_def function_ctx_def)

lemma failing_handler_wrapped:
  "wrappedHandler (fst (NewHandlerWrapper example_json (Handler failing_handler))) ctx payload
     = (Returned (GoNil, Some (ErrorString ''boom'')), [HandlerCall []])"
  by (simp add: NewHandlerWrapper_def newHandler_def validateArguments_def validateReturns_def
        NumIn_def NumOut_def Out_def adapter_def failing_handler_def error_type_def)

lemma echo_handler_wrapped:
  "wrappedHandler (fst (NewHandlerWrapper example_json (Handler echo_handler))) ctx (GoString s)
     = (Returned (GoString s, None), [HandlerCall [GoContext ctx, GoString s]])"
  by (simp add: NewHandlerWrapper_def newHandler_def validateArguments_def validateReturns_def
        NumIn_def NumOut_def In_def Out_def adapter_def echo_handler_def error_type_def
        context_type_def string_type_def example_json_def)

lemma example_world_sender: "sender (example_world s) = s"
  by (simp add: example_world_def init_globals_def)

lemma Invoke_nil_panic:
  assumes "tags_resolve ctx" and "wrappedHandler hw ctx payload = (Panicked GoNil, evs)"
  shows "fst (Invoke hw env ctx payload w) = Returned (GoNil, None)"
    and "trace (snd (Invoke hw env ctx payload w)) = trace w @ evs @ [Flush, Close]"
    and "errCounter (snd (Invoke hw env ctx payload w)) = errCounter w"
  by (simp_all add: Invoke_panicked [OF assms] Invoke_deferred_def call_sender_def
        Invoke_tags_fields)

lemma nil_panic_handler_wrapped:
  "wrappedHandler (fst (NewHandlerWrapper example_json (Handler nil_panic_handler))) ctx payload
     = (Panicked GoNil, [HandlerCall []])"
  by (simp add: NewHandlerWrapper_def newHandler_def validateArguments_def validateReturns_def
        NumIn_def NumOut_def Out_def adapter_def nil_panic_handler_def error_type_def)

lemma panicking_handler_wrapped:
  "wrappedHandler (fst (NewHandlerWrapper example_json (Handler panicking_handler))) ctx payload
     = (Panicked (GoString ''boom''), [HandlerCall []])"
  by (simp add: NewHandlerWrapper_def newHandler_def validateArguments_def validateReturns_def
        NumIn_def NumOut_def Out_def adapter_def panicking_handler_def error_type_def)

lemma example_world_fields:
  "coldStart (example_world s) = True" "val (csCounter (example_world s)) = 0"
  "val (invocationsCounter (example_world s)) = 0" "val (errCounter (example_world s)) = 0"
  "trace (example_world s) = []" "FunctionName (example_world s) = ''my-func''"
  by (simp_all add: example_world_def init_globals_def)

lemma NewHandlerWrapper_fst:
  "wrappedHandler (fst (NewHandlerWrapper js handler)) = fst (newHandler js handler)"
  by (simp add: NewHandlerWrapper_def split_def Let_def)

lemmas failing_handler_inner = failing_handler_wrapped [unfolded NewHandlerWrapper_fst]

lemmas echo_handler_inner = echo_handler_wrapped [unfolded NewHandlerWrapper_fst]

lemmas panicking_handler_inner = panicking_handler_wrapped [unfolded NewHandlerWrapper_fst]

lemma Invoke_panic_propagates:
  assumes "tags_resolve ctx" and "wrappedHandler hw ctx payload = (Panicked v, evs)"
    and "v \<noteq> GoNil"
  shows "fst (Invoke hw env ctx payload w) = Panicked v"
  using assms(3)
  by (simp add: Invoke_panicked [OF assms(1,2)] Invoke_deferred_def call_sender_def)

lemma inner_returns_example:
  "inner_returns example_json (example_request panicking_handler) = False"
  "inner_returns example_json (example_request failing_handler) = True"
  "inner_returns example_json (example_request echo_handler) = True"
  by (simp_all add: inner_returns_def example_request_def tags_resolve_function_ctx
        panicking_handler_inner failing_handler_inner echo_handler_inner)



lemma wrapHandler_unfold:
  "wrapHandler js handler env ctx payload w
     = Invoke \<lparr>lambdaContext = None, wrappedHandler = fst (newHandler js handler)\<rparr> env ctx payload
         (w\<lparr>trace := trace w @ snd (newHandler js handler)\<rparr>)"
  by (simp add: wrapHandler_def NewHandlerWrapper_def split_def Let_def)


lemma wrapHandler_cold_start:
  "coldStart (snd (wrapHandler js handler env ctx payload w))
     = (coldStart w \<and> \<not> (tags_resolve ctx
          \<and> is_Returned (fst (fst (newHandler js handler) ctx payload))))"
  "csCounter (snd (wrapHandler js handler env ctx payload w))
     = (if coldStart w \<and> tags_resolve ctx
          \<and> is_Returned (fst (fst (newHandler js handler) ctx payload))
        then Increment 1 (csCounter w) else csCounter w)"
  by (simp_all add: wrapHandler_unfold Invoke_cold_start)

text \<open>The exact number of increments of the error counter.\<close>

lemma Invoke_error_count:
  assumes "tags_resolve ctx"
    and "wrappedHandler hw ctx payload = (Returned (response, err), evs)"
  shows "is_Returned (fst (Invoke hw env ctx payload w))"
    and "val (errCounter (snd (Invoke hw env ctx payload w)))
           = val (errCounter w) + (if err \<noteq> None then 1 else 0)
             + (if returned_error (fst (Invoke hw env ctx payload w)) \<noteq> None then 1 else 0)"
proof -
  from Invoke_returned [OF assms] obtain err' where
    i: "Invoke hw env ctx payload w =
         Invoke_deferred GoNil (response, err')
           (snd (Invoke_body hw env ctx payload (snd (Invoke_tags hw ctx w))))"
    by blast
  have f: "fst (Invoke hw env ctx payload w) = Returned (response, err')"
    by (simp add: i Invoke_deferred_def Let_def split_def)
  show "is_Returned (fst (Invoke hw env ctx payload w))"
    by (simp add: f)
  have "val (errCounter (snd (Invoke hw env ctx payload w)))
           = val (errCounter w) + (if err \<noteq> None then 1 else 0)
             + (if err' \<noteq> None then 1 else 0)"
    by (simp add: i Invoke_deferred_fields Invoke_body_returned [OF assms(2)] Invoke_tags_fields
          Increment_def)
  then show "val (errCounter (snd (Invoke hw env ctx payload w)))
           = val (errCounter w) + (if err \<noteq> None then 1 else 0)
             + (if returned_error (fst (Invoke hw env ctx payload w)) \<noteq> None then 1 else 0)"
    by (simp add: f)
qed

lemma Invoke_panic_error_count:
  assumes "tags_resolve ctx" and "wrappedHandler hw ctx payload = (Panicked v, evs)"
  shows "val (errCounter (snd (Invoke hw env ctx payload w)))
           = val (errCounter w) + (if v \<noteq> GoNil then 1 else 0)"
  by (simp add: Invoke_panicked [OF assms] Invoke_deferred_fields Invoke_tags_fields
        Increment_def)

text \<open>
  A function of an illegal shape: \<open>newHandler\<close> returns the handler that reports the
  error of the validators; decorated, its error is subject to the send loops like any
  other.
\<close>

lemma newHandler_illegal_shape:
  assumes "hkind h = KFunc"
    and "2 < NumIn (htype h)
         \<or> (NumIn (htype h) = 2 \<and> \<not> implements_context (In (htype h) 0))
         \<or> 2 < NumOut (htype h)
         \<or> (NumOut (htype h) = 2 \<and> \<not> implements_error (Out (htype h) 1))
         \<or> (NumOut (htype h) = 1 \<and> \<not> implements_error (Out (htype h) 0))"
  shows "\<exists>e. shape_error (htype h) = Some e
           \<and> fst (newHandler js (Handler h)) = errorHandler e
           \<and> (2 < NumIn (htype h) \<longrightarrow> e = TooManyArguments (NumIn (htype h)))"
proof -
  have "shape_error (htype h) \<noteq> None"
  proof (cases "validateArguments (htype h)")
    case (Inl e)
    then show ?thesis by (simp add: shape_error_def)
  next
    case (Inr takesContext)
    then have "2 < NumOut (htype h)
         \<or> (NumOut (htype h) = 2 \<and> \<not> implements_error (Out (htype h) 1))
         \<or> (NumOut (htype h) = 1 \<and> \<not> implements_error (Out (htype h) 0))"
      using assms(2) by (auto simp: validateArguments_def Let_def split: if_splits)
    then have "validateReturns (htype h) \<noteq> None"
      by (auto simp: validateReturns_def)
    with Inr show ?thesis by (simp add: shape_error_def)
  qed
  then obtain e where e: "shape_error (htype h) = Some e"
    by blast
  have h: "fst (newHandler js (Handler h)) = errorHandler e"
    using e assms(1)
    by (auto simp: newHandler_def shape_error_def split: sum.splits option.splits)
  have "2 < NumIn (htype h) \<longrightarrow> e = TooManyArguments (NumIn (htype h))"
    using e by (auto simp: shape_error_def validateArguments_def)
  with e h show ?thesis by simp
qed

lemma wrapHandler_illegal_shape:
  assumes "hkind h = KFunc"
    and "2 < NumIn (htype h)
         \<or> (NumIn (htype h) = 2 \<and> \<not> implements_context (In (htype h) 0))
         \<or> 2 < NumOut (htype h)
         \<or> (NumOut (htype h) = 2 \<and> \<not> implements_error (Out (htype h) 1))
         \<or> (NumOut (htype h) = 1 \<and> \<not> implements_error (Out (htype h) 0))"
    and "tags_resolve ctx"
    and "sender w = (\<lambda>calls ev. x)"
    and "\<And>m. m \<noteq> [] \<Longrightarrow> range_counters env m \<noteq> []"
  shows "fst (wrapHandler js (Handler h) env ctx payload w) = Returned (GoNil, x)"
proof -
  from newHandler_illegal_shape [OF assms(1,2), of js] obtain e where
    e: "fst (newHandler js (Handler h)) = errorHandler e"
    by blast
  have p: "wrappedHandler
             \<lparr>lambdaContext = None, wrappedHandler = fst (newHandler js (Handler h))\<rparr>
             ctx payload = (Returned (GoNil, Some e), [])"
    by (simp add: e errorHandler_def)
  have s: "sender (w\<lparr>trace := trace w @ snd (newHandler js (Handler h))\<rparr>) = (\<lambda>calls ev. x)"
    using assms(4) by simp
  show ?thesis
    unfolding wrapHandler_unfold
    by (rule Invoke_constant_sender(1) [OF assms(3) p s assms(5)])
qed

section \<open>The claims\<close>

text \<open>
  C10. The deferred cleanup is registered only after the tags are resolved. When the
  context carries no lambda context, or the invoked-function ARN splits on the colon
  into fewer than six segments, \<open>Invoke\<close> panics with a run-time error (a nil
  dereference, or the first index that is out of range), and it has made no call at all
  by then: the trace is what it was, so neither \<open>Flush\<close> nor \<open>Close\<close> was called, and
  the invocation counter is untouched.
\<close>

theorem Invoke_aborts_before_defer:
  assumes "FromContext ctx = None \<or>
           (\<exists>c. FromContext ctx = Some c \<and> length (strings_Split (InvokedFunctionArn c) CHR '':'') < 6)"
  shows "fst (Invoke hw env ctx payload w) =
           Panicked (GoError (RuntimeError
             (case FromContext ctx of
                None \<Rightarrow> NilDereference
              | Some c \<Rightarrow>
                  (let n = length (strings_Split (InvokedFunctionArn c) CHR '':'')
                   in IndexOutOfRange (max 3 n) n))))
         \<and> trace (snd (Invoke hw env ctx payload w)) = trace w
         \<and> filter is_Flush_or_Close (trace (snd (Invoke hw env ctx payload w)))
             = filter is_Flush_or_Close (trace w)
         \<and> invocationsCounter (snd (Invoke hw env ctx payload w)) = invocationsCounter w"
proof -
  have nr: "\<not> tags_resolve ctx"
    using assms by (auto simp: tags_resolve_def Let_def)
  have t: "fst (Invoke_tags hw ctx w) =
           Panicked (GoError (RuntimeError
             (case FromContext ctx of
                None \<Rightarrow> NilDereference
              | Some c \<Rightarrow>
                  (let n = length (strings_Split (InvokedFunctionArn c) CHR '':'')
                   in IndexOutOfRange (max 3 n) n))))"
    using assms
    by (auto simp: Invoke_tags_def Let_def index_def runtime_panic_def max_def
          split: option.splits sum.splits)
  have "fst (Invoke hw env ctx payload w) = Panicked (GoError (RuntimeError
             (case FromContext ctx of
                None \<Rightarrow> NilDereference
              | Some c \<Rightarrow>
                  (let n = length (strings_Split (InvokedFunctionArn c) CHR '':'')
                   in IndexOutOfRange (max 3 n) n))))"
    using t by (cases "Invoke_tags hw ctx w") (simp add: Invoke_def)
  moreover have "trace (snd (Invoke hw env ctx payload w)) = trace w"
    by (simp add: Invoke_unresolved(1) [OF nr] Invoke_tags_trace)
  moreover have "invocationsCounter (snd (Invoke hw env ctx payload w)) = invocationsCounter w"
    by (simp add: Invoke_unresolved(1) [OF nr] Invoke_tags_fields)
  ultimately show ?thesis by simp
qed

text \<open>The theorem at a context without lambda context and at the ARN \<open>arn:aws:lambda\<close>.\<close>

theorem Invoke_aborts_before_defer_witness:
  "fst (Invoke (fst (NewHandlerWrapper example_json (Handler echo_handler))) example_env
          no_lambda_ctx (GoString ''hello'') (example_world sender_ok))
     = Panicked (GoError (RuntimeError NilDereference))
   \<and> trace (snd (Invoke (fst (NewHandlerWrapper example_json (Handler echo_handler))) example_env
          no_lambda_ctx (GoString ''hello'') (example_world sender_ok))) = []
   \<and> fst (Invoke (fst (NewHandlerWrapper example_json (Handler echo_handler))) example_env
          short_arn_ctx (GoString ''hello'') (example_world sender_ok))
     = Panicked (GoError (RuntimeError (IndexOutOfRange 3 3)))
   \<and> trace (snd (Invoke (fst (NewHandlerWrapper example_json (Handler echo_handler))) example_env
          short_arn_ctx (GoString ''hello'') (example_world sender_ok))) = []"
  using Invoke_aborts_before_defer [of no_lambda_ctx "fst (NewHandlerWrapper example_json (Handler echo_handler))"
               example_env "GoString ''hello''" "example_world sender_ok"]
        Invoke_aborts_before_defer [of short_arn_ctx "fst (NewHandlerWrapper example_json (Handler echo_handler))"
               example_env "GoString ''hello''" "example_world sender_ok"]
  by (simp add: no_lambda_ctx_def short_arn_ctx_def example_world_def init_globals_def)

text \<open>
  C6. For the ARN \<open>arn:aws:lambda:us-west-2:123456789012:function:my-func:3\<close> an
  invocation leaves the tags Region, accountId and Resource at \<open>us-west-2\<close>,
  \<open>123456789012\<close> and \<open>my-func:3\<close>; for the ARN
  \<open>arn:aws:lambda:us-west-2:123456789012:event-source-mappings:abc123\<close> it leaves
  EventSourceMappings at \<open>abc123\<close> and the Resource tag as it found it. This holds for
  every wrapper, environment, payload and starting state.
\<close>

theorem arn_tag_resolution:
  "PointTags (snd (Invoke hw env
      \<lparr>FromContext = Some \<lparr>InvokedFunctionArn =
         ''arn:aws:lambda:us-west-2:123456789012:function:my-func:3''\<rparr>\<rparr> payload w)) ''Region''
     = Some ''us-west-2''
   \<and> PointTags (snd (Invoke hw env
      \<lparr>FromContext = Some \<lparr>InvokedFunctionArn =
         ''arn:aws:lambda:us-west-2:123456789012:function:my-func:3''\<rparr>\<rparr> payload w)) ''accountId''
     = Some ''123456789012''
   \<and> PointTags (snd (Invoke hw env
      \<lparr>FromContext = Some \<lparr>InvokedFunctionArn =
         ''arn:aws:lambda:us-west-2:123456789012:function:my-func:3''\<rparr>\<rparr> payload w)) ''Resource''
     = Some ''my-func:3''
   \<and> PointTags (snd (Invoke hw env
      \<lparr>FromContext = Some \<lparr>InvokedFunctionArn =
         ''arn:aws:lambda:us-west-2:123456789012:event-source-mappings:abc123''\<rparr>\<rparr> payload w))
        ''EventSourceMappings''
     = Some ''abc123''
   \<and> PointTags (snd (Invoke hw env
      \<lparr>FromContext = Some \<lparr>InvokedFunctionArn =
         ''arn:aws:lambda:us-west-2:123456789012:event-source-mappings:abc123''\<rparr>\<rparr> payload w))
        ''Resource''
     = PointTags w ''Resource''"
  by (simp add: Invoke_PointTags Invoke_tags_def Let_def index_def)

text \<open>
  C7, as the code has it. For a function of three arguments the handler that
  \<open>newHandler\<close> builds returns a nil response with the error "handlers may not take
  more than two arguments" and makes no call. The callable that \<open>wrapHandler\<close>
  produces does not return that error: the send loops of \<open>Invoke\<close> overwrite it, so the
  caller gets \<open>(nil, nil)\<close> when the sender works and the sender's error when it is down.
\<close>

theorem validation_error_lost_by_Invoke:
  "fst (newHandler example_json (Handler three_argument_handler)) function_ctx (GoString ''hello'')
     = (Returned (GoNil, Some (TooManyArguments 3)), [])
   \<and> fst (wrapHandler example_json (Handler three_argument_handler) example_env function_ctx
          (GoString ''hello'') (example_world sender_ok))
     = Returned (GoNil, None)
   \<and> fst (wrapHandler example_json (Handler three_argument_handler) example_env function_ctx
          (GoString ''hello'') (example_world sender_down))
     = Returned (GoNil, Some (ErrorString ''connection refused''))"
proof -
  have k: "hkind three_argument_handler = KFunc"
    and n: "2 < NumIn (htype three_argument_handler)"
    by (simp_all add: three_argument_handler_def NumIn_def)
  have r: "\<And>m. m \<noteq> [] \<Longrightarrow> range_counters example_env m \<noteq> []"
    by (simp add: example_env_def)
  have "fst (newHandler example_json (Handler three_argument_handler)) function_ctx
          (GoString ''hello'')
     = (Returned (GoNil, Some (TooManyArguments 3)), [])"
    using newHandler_illegal_shape [of three_argument_handler example_json] k n
    by (auto simp: errorHandler_def three_argument_handler_def NumIn_def)
  moreover have "fst (wrapHandler example_json (Handler three_argument_handler) example_env
          function_ctx (GoString ''hello'') (example_world sender_ok))
     = Returned (GoNil, None)"
    by (rule wrapHandler_illegal_shape [OF k _ tags_resolve_function_ctx _ r])
       (simp_all add: n example_world_sender sender_ok_def)
  moreover have "fst (wrapHandler example_json (Handler three_argument_handler) example_env
          function_ctx (GoString ''hello'') (example_world sender_down))
     = Returned (GoNil, Some (ErrorString ''connection refused''))"
    by (rule wrapHandler_illegal_shape [OF k _ tags_resolve_function_ctx _ r])
       (simp_all add: n example_world_sender sender_down_def)
  ultimately show ?thesis by simp
qed



text \<open>
  C9. For a function of a legal shape that expects a payload (one argument that is not a
  context, or two arguments), when \<open>Marshal\<close> fails on the payload, or \<open>Unmarshal\<close>
  fails on its bytes for the type of the last argument, the handler built by
  \<open>newHandler\<close> returns a nil response with that error and makes no call: the function
  is not invoked.
\<close>

theorem decode_failure_short_circuits:
  assumes "hkind h = KFunc"
    and "validateArguments (htype h) = Inr takesContext"
    and "validateReturns (htype h) = None"
    and "(NumIn (htype h) = 1 \<and> \<not> takesContext) \<or> NumIn (htype h) = 2"
    and "Marshal js p = Inl e
         \<or> (\<exists>bytes. Marshal js p = Inr bytes
               \<and> Unmarshal js bytes (In (htype h) (NumIn (htype h) - 1)) = Inl e)"
  shows "fst (newHandler js (Handler h)) ctx p = (Returned (GoNil, Some e), [])"
proof -
  have "fst (newHandler js (Handler h)) = adapter js h takesContext"
    using assms(1,2,3) by (simp add: newHandler_def)
  then show ?thesis
    using assms(4,5) by (auto simp: adapter_def Let_def)
qed

text \<open>
  The theorem at a payload that does not serialise, and at a payload that does not decode
  into an \<open>int\<close>.
\<close>

theorem decode_failure_short_circuits_witness:
  "fst (newHandler example_json (Handler echo_handler)) function_ctx (GoBool True)
     = (Returned (GoNil, Some (ErrorString ''unsupported type'')), [])
   \<and> fst (newHandler example_json (Handler int_handler)) function_ctx (GoString ''hello'')
     = (Returned (GoNil, Some (ErrorString ''cannot unmarshal'')), [])"
  using decode_failure_short_circuits [of echo_handler True example_json "GoBool True"
          "ErrorString ''unsupported type''" function_ctx]
        decode_failure_short_circuits [of int_handler True example_json "GoString ''hello''"
          "ErrorString ''cannot unmarshal''" function_ctx]
  by (simp add: echo_handler_def int_handler_def example_json_def context_type_def
        string_type_def int_type_def error_type_def validateArguments_def validateReturns_def
        NumIn_def NumOut_def In_def Out_def)

text \<open>
  C1, as the code has it. The two loops assign the sender's result to the named result
  \<open>err\<close>, which \<open>return response, err\<close> then returns: the error that \<open>Invoke\<close>
  returns is the result of the last \<open>SendDeltaCounter\<close>, not the error of the wrapped
  handler. A handler that returns the error "boom" is reported as a success when the
  sender works, and a handler that succeeds is reported as failed with the sender's error
  when the sender is down.
\<close>

theorem Invoke_returns_last_send_error:
  "fst (wrappedHandler (fst (NewHandlerWrapper example_json (Handler failing_handler)))
          function_ctx GoNil)
     = Returned (GoNil, Some (ErrorString ''boom''))
   \<and> fst (Invoke (fst (NewHandlerWrapper example_json (Handler failing_handler)))
          example_env function_ctx GoNil (example_world sender_ok))
     = Returned (GoNil, None)
   \<and> fst (wrappedHandler (fst (NewHandlerWrapper example_json (Handler echo_handler)))
          function_ctx (GoString ''hello''))
     = Returned (GoString ''hello'', None)
   \<and> fst (Invoke (fst (NewHandlerWrapper example_json (Handler echo_handler)))
          example_env function_ctx (GoString ''hello'') (example_world sender_down))
     = Returned (GoString ''hello'', Some (ErrorString ''connection refused''))"
proof -
  have r: "\<And>m. m \<noteq> [] \<Longrightarrow> range_counters example_env m \<noteq> []"
    by (simp add: example_env_def)
  have "fst (Invoke (fst (NewHandlerWrapper example_json (Handler failing_handler)))
          example_env function_ctx GoNil (example_world sender_ok))
     = Returned (GoNil, None)"
    by (rule Invoke_constant_sender(1) [OF tags_resolve_function_ctx failing_handler_wrapped _ r])
       (simp add: example_world_sender sender_ok_def)
  moreover have "fst (Invoke (fst (NewHandlerWrapper example_json (Handler echo_handler)))
          example_env function_ctx (GoString ''hello'') (example_world sender_down))
     = Returned (GoString ''hello'', Some (ErrorString ''connection refused''))"
    by (rule Invoke_constant_sender(1) [OF tags_resolve_function_ctx echo_handler_wrapped _ r])
       (simp add: example_world_sender sender_down_def)
  ultimately show ?thesis
    by (simp add: failing_handler_wrapped echo_handler_wrapped)
qed

text \<open>
  C5, as stated, fails for a handler that panics with a nil value: \<open>recover()\<close>
  returns nil, no error counter is sent, and \<open>Invoke\<close> returns \<open>(nil, nil)\<close> instead of
  panicking again.
\<close>

theorem nil_panic_is_swallowed:
  "fst (wrappedHandler (fst (NewHandlerWrapper example_json (Handler nil_panic_handler)))
          function_ctx GoNil)
     = Panicked GoNil
   \<and> fst (Invoke (fst (NewHandlerWrapper example_json (Handler nil_panic_handler)))
          example_env function_ctx GoNil (example_world sender_ok))
     = Returned (GoNil, None)
   \<and> trace (snd (Invoke (fst (NewHandlerWrapper example_json (Handler nil_panic_handler)))
          example_env function_ctx GoNil (example_world sender_ok)))
     = [HandlerCall [], Flush, Close]"
  by (simp add: Invoke_nil_panic [OF tags_resolve_function_ctx nil_panic_handler_wrapped]
        nil_panic_handler_wrapped example_world_fields)

text \<open>
  C5, amended. When the wrapped handler panics, \<open>Invoke\<close> calls \<open>Flush\<close> and then
  \<open>Close\<close> before it exits, after the handler's own calls. When the panic value is not
  nil, it has before them incremented the error counter once and called
  \<open>SendDeltaCounter\<close> for \<open>aws.lambda.wf.errors\<close> with the new value of the error
  counter, and it then panics with that same value. When the panic value is nil, no
  error counter is sent and \<open>Invoke\<close> returns \<open>(nil, nil)\<close>. Nothing else is called.
\<close>

theorem panic_is_reraised_after_cleanup:
  assumes "tags_resolve ctx"
    and "wrappedHandler hw ctx payload = (Panicked v, evs)"
  shows "fst (Invoke hw env ctx payload w)
           = (if v \<noteq> GoNil then Panicked v else Returned (GoNil, None))
       \<and> trace (snd (Invoke hw env ctx payload w))
           = trace w @ evs
             @ (if v \<noteq> GoNil
                then [SendDeltaCounter ''aws.lambda.wf.errors'' (val (errCounter w) + 1)
                        (FunctionName w) (PointTags (snd (Invoke_tags hw ctx w)))]
                else [])
             @ [Flush, Close]
       \<and> val (errCounter (snd (Invoke hw env ctx payload w)))
           = val (errCounter w) + (if v \<noteq> GoNil then 1 else 0)"
  by (simp add: Invoke_panicked [OF assms(1,2)] Invoke_deferred_def call_sender_def
        Increment_def Invoke_tags_fields)

text \<open>
  The theorem at a handler that panics with "boom" and at one that panics with nil, the
  sender being down.
\<close>

theorem panic_is_reraised_after_cleanup_witness:
  "fst (Invoke (fst (NewHandlerWrapper example_json (Handler panicking_handler)))
          example_env function_ctx GoNil (example_world sender_down))
     = Panicked (GoString ''boom'')
   \<and> map is_Flush_or_Close
       (trace (snd (Invoke (fst (NewHandlerWrapper example_json (Handler panicking_handler)))
          example_env function_ctx GoNil (example_world sender_down))))
     = [False, False, True, True]
   \<and> val (errCounter (snd (Invoke (fst (NewHandlerWrapper example_json (Handler panicking_handler)))
          example_env function_ctx GoNil (example_world sender_down)))) = 1
   \<and> map is_Flush_or_Close
       (trace (snd (Invoke (fst (NewHandlerWrapper example_json (Handler nil_panic_handler)))
          example_env function_ctx GoNil (example_world sender_down))))
     = [False, True, True]"
  using panic_is_reraised_after_cleanup
          [OF tags_resolve_function_ctx panicking_handler_wrapped,
           where env = example_env and w = "example_world sender_down"]
        panic_is_reraised_after_cleanup
          [OF tags_resolve_function_ctx nil_panic_handler_wrapped,
           where env = example_env and w = "example_world sender_down"]
  by (simp add: example_world_fields)

text \<open>
  C2, as stated, fails twice. When the handler returns an error and the last send of the
  counters loop fails too, the error counter is incremented in the body and again in the
  deferred function: twice. And an invocation without lambda context panics before the
  invocation counter is touched: it is not incremented.
\<close>

theorem error_counter_incremented_twice:
  "val (errCounter (example_world sender_down)) = 0
   \<and> val (errCounter (snd (Invoke (fst (NewHandlerWrapper example_json (Handler failing_handler)))
          example_env function_ctx GoNil (example_world sender_down)))) = 2
   \<and> val (invocationsCounter (example_world sender_down)) = 0
   \<and> val (invocationsCounter (snd (Invoke
          (fst (NewHandlerWrapper example_json (Handler failing_handler)))
          example_env no_lambda_ctx GoNil (example_world sender_down)))) = 0"
proof -
  have r: "\<And>m. m \<noteq> [] \<Longrightarrow> range_counters example_env m \<noteq> []"
    by (simp add: example_env_def)
  have "val (errCounter (snd (Invoke (fst (NewHandlerWrapper example_json (Handler failing_handler)))
          example_env function_ctx GoNil (example_world sender_down)))) = 2"
    by (subst Invoke_constant_sender(2)
          [OF tags_resolve_function_ctx failing_handler_wrapped _ r,
           where x = "Some (ErrorString ''connection refused'')"])
       (simp_all add: example_world_sender sender_down_def example_world_fields)
  moreover have "\<not> tags_resolve no_lambda_ctx"
    by (simp add: tags_resolve_def no_lambda_ctx_def)
  ultimately show ?thesis
    by (simp add: Invoke_unresolved Invoke_tags_fields example_world_fields)
qed

text \<open>
  C2, amended. When the tags resolve, one call of \<open>Invoke\<close> increments the invocation
  counter exactly once, and the error counter as follows. When the wrapped handler
  returns: once in the body if and only if it returned an error, and once in the deferred
  function if and only if the error that \<open>Invoke\<close> itself returns is not nil; so at most
  once when the handler returned no error, and once or twice when it returned one. When
  the wrapped handler panics: exactly once for a value that is not nil, not at all for
  nil. When the tags do not resolve, neither counter changes.
\<close>

theorem counter_increments_per_invocation:
  "(tags_resolve ctx \<longrightarrow>
      val (invocationsCounter (snd (Invoke hw env ctx payload w)))
        = val (invocationsCounter w) + 1
      \<and> (case fst (wrappedHandler hw ctx payload) of
            Returned result \<Rightarrow>
              is_Returned (fst (Invoke hw env ctx payload w))
              \<and> val (errCounter (snd (Invoke hw env ctx payload w)))
                  = val (errCounter w)
                    + (if snd result \<noteq> None then 1 else 0)
                    + (if returned_error (fst (Invoke hw env ctx payload w)) \<noteq> None
                       then 1 else 0)
          | Panicked v \<Rightarrow>
              val (errCounter (snd (Invoke hw env ctx payload w)))
                = val (errCounter w) + (if v \<noteq> GoNil then 1 else 0)))
   \<and> (\<not> tags_resolve ctx \<longrightarrow>
      invocationsCounter (snd (Invoke hw env ctx payload w)) = invocationsCounter w
      \<and> errCounter (snd (Invoke hw env ctx payload w)) = errCounter w)"
proof (cases "tags_resolve ctx")
  case False
  then show ?thesis by (simp add: Invoke_unresolved Invoke_tags_fields)
next
  case True
  obtain result evs where p: "wrappedHandler hw ctx payload = (result, evs)"
    by (cases "wrappedHandler hw ctx payload")
  have inv: "val (invocationsCounter (snd (Invoke hw env ctx payload w)))
        = val (invocationsCounter w) + 1"
    by (simp add: Invoke_counters(1) [OF True] Increment_def)
  show ?thesis
  proof (cases result)
    case (Panicked v)
    with True p inv show ?thesis
      by (simp add: Invoke_panic_error_count)
  next
    case (Returned x)
    obtain response err where x: "x = (response, err)" by (cases x)
    from True p inv Returned x show ?thesis
      using Invoke_error_count [OF True p [unfolded Returned x], of env w]
      by simp
  qed
qed

text \<open>
  The theorem at handlers that return an error, return none, panic with "boom" and panic
  with nil, the sender working.
\<close>

theorem counter_increments_per_invocation_witness:
  "tags_resolve function_ctx
   \<and> val (invocationsCounter (snd (Invoke
          (fst (NewHandlerWrapper example_json (Handler failing_handler)))
          example_env function_ctx GoNil (example_world sender_ok)))) = 1
   \<and> val (errCounter (snd (Invoke
          (fst (NewHandlerWrapper example_json (Handler failing_handler)))
          example_env function_ctx GoNil (example_world sender_ok)))) = 1
   \<and> val (errCounter (snd (Invoke
          (fst (NewHandlerWrapper example_json (Handler echo_handler)))
          example_env function_ctx (GoString ''hello'') (example_world sender_ok)))) = 0
   \<and> val (errCounter (snd (Invoke
          (fst (NewHandlerWrapper example_json (Handler panicking_handler)))
          example_env function_ctx GoNil (example_world sender_ok)))) = 1
   \<and> val (errCounter (snd (Invoke
          (fst (NewHandlerWrapper example_json (Handler nil_panic_handler)))
          example_env function_ctx GoNil (example_world sender_ok)))) = 0"
proof -
  have r: "\<And>m. m \<noteq> [] \<Longrightarrow> range_counters example_env m \<noteq> []"
    by (simp add: example_env_def)
  have s: "sender (example_world sender_ok) = (\<lambda>calls ev. None)"
    by (simp add: example_world_sender sender_ok_def)
  note f = Invoke_constant_sender(1) [OF tags_resolve_function_ctx failing_handler_wrapped s r]
  note e = Invoke_constant_sender(1) [OF tags_resolve_function_ctx echo_handler_wrapped s r]
  show ?thesis
    using counter_increments_per_invocation
            [of function_ctx "fst (NewHandlerWrapper example_json (Handler failing_handler))"
                example_env GoNil "example_world sender_ok"]
          counter_increments_per_invocation
            [of function_ctx "fst (NewHandlerWrapper example_json (Handler echo_handler))"
                example_env "GoString ''hello''" "example_world sender_ok"]
          counter_increments_per_invocation
            [of function_ctx "fst (NewHandlerWrapper example_json (Handler panicking_handler))"
                example_env GoNil "example_world sender_ok"]
          counter_increments_per_invocation
            [of function_ctx "fst (NewHandlerWrapper example_json (Handler nil_panic_handler))"
                example_env GoNil "example_world sender_ok"]
    by (simp add: tags_resolve_function_ctx failing_handler_wrapped echo_handler_wrapped
          panicking_handler_wrapped nil_panic_handler_wrapped example_world_fields f e)
qed

text \<open>
  C3, as stated, fails when the first invocation panics: the cold-start block is after the
  call of the wrapped handler and is not reached, so the flag stays true and the counter
  stays at zero.
\<close>

theorem cold_start_skipped_when_first_invocation_panics:
  "coldStart (example_world sender_ok)
   \<and> val (csCounter (example_world sender_ok)) = 0
   \<and> fst (serve example_json (example_request panicking_handler) (example_world sender_ok))
       = Panicked (GoString ''boom'')
   \<and> coldStart (snd (serve example_json (example_request panicking_handler)
                       (example_world sender_ok)))
   \<and> val (csCounter (snd (serve example_json (example_request panicking_handler)
                       (example_world sender_ok)))) = 0"
proof -
  have p: "wrappedHandler
             \<lparr>lambdaContext = None,
              wrappedHandler = fst (newHandler example_json (Handler panicking_handler))\<rparr>
             function_ctx (GoString ''hello'')
           = (Panicked (GoString ''boom''), [HandlerCall []])"
    by (simp add: panicking_handler_inner)
  have "fst (serve example_json (example_request panicking_handler) (example_world sender_ok))
       = Panicked (GoString ''boom'')"
    by (simp add: serve_def example_request_def wrapHandler_unfold
          Invoke_panic_propagates [OF tags_resolve_function_ctx p])
  then show ?thesis
    by (simp add: serve_def example_request_def wrapHandler_cold_start panicking_handler_inner
          example_world_fields)
qed

text \<open>
  C3, amended. Over any sequence of invocations of a process, the cold-start counter is
  incremented at most once: exactly when the flag is true at the start and some
  invocation gets as far as the cold-start check (its tags resolve and its wrapped handler
  returns, with or without an error). The flag is true afterwards only if it was true
  before and no invocation got that far; once false it stays false. Taking the sequence
  up to and including the first such invocation shows that the increment happens there.
\<close>

theorem cold_start_counted_once:
  "coldStart (serve_all js rs w) = (coldStart w \<and> \<not> list_ex (inner_returns js) rs)
   \<and> val (csCounter (serve_all js rs w))
       = val (csCounter w) + (if coldStart w \<and> list_ex (inner_returns js) rs then 1 else 0)"
proof (induction rs arbitrary: w)
  case Nil
  show ?case by simp
next
  case (Cons r rs)
  show ?case
    by (simp add: Cons.IH serve_def wrapHandler_cold_start inner_returns_def Increment_def)
qed

text \<open>
  The theorem at two invocations that panic, and at a panic followed by two invocations
  that return.
\<close>

theorem cold_start_counted_once_witness:
  "coldStart (serve_all example_json
      [example_request panicking_handler, example_request panicking_handler]
      (example_world sender_ok))
   \<and> val (csCounter (serve_all example_json
      [example_request panicking_handler, example_request panicking_handler]
      (example_world sender_ok))) = 0
   \<and> \<not> coldStart (serve_all example_json
      [example_request panicking_handler, example_request failing_handler,
       example_request echo_handler]
      (example_world sender_ok))
   \<and> val (csCounter (serve_all example_json
      [example_request panicking_handler, example_request failing_handler,
       example_request echo_handler]
      (example_world sender_ok))) = 1"
  using cold_start_counted_once
          [of example_json "[example_request panicking_handler, example_request panicking_handler]"
              "example_world sender_ok"]
        cold_start_counted_once
          [of example_json "[example_request panicking_handler, example_request failing_handler,
                example_request echo_handler]" "example_world sender_ok"]
  by (simp add: inner_returns_example example_world_fields)




end
